theory Spec2Isabelle
  imports Complex_Main
begin

section \<open>Data model (types.ts)\<close>

text \<open>
  The game is a React component whose state lives in \<open>useState\<close> cells. JavaScript
  numbers are modelled as \<open>int\<close> where the code only ever stores integers (score, streak,
  level, counters) and as \<open>real\<close> where it stores fractions (timers, focus, accuracies).
\<close>

record MathProblem =
  id_field :: string
  equation :: string
  isCorrect :: bool
  difficulty :: int

datatype GameState = MENU | LOADING | PLAYING | GAME_OVER

datatype SwipeDirection = LEFT | RIGHT | NONE

datatype FocusState = HIGH | MEDIUM | LOW

section \<open>The question source (services/geminiService.ts)\<close>

subsection \<open>Numbers in template literals\<close>

text \<open>
  The generator only interpolates integers, which JavaScript prints in decimal with a
  leading minus sign for a negative value.
\<close>

function showDigits :: "int \<Rightarrow> string" where
  "showDigits n =
     (if n < 10 then [char_of (48 + n)]
      else showDigits (n div 10) @ [char_of (48 + n mod 10)])"
  by pat_completeness auto
termination
  by (relation "measure nat") auto

declare showDigits.simps [simp del]

definition showInt :: "int \<Rightarrow> string" where
  "showInt k = (if k < 0 then ''-'' @ showDigits (- k) else showDigits k)"

subsection \<open>Random draws\<close>

text \<open>
  \<open>Math.random()\<close> is modelled by a tape \<open>rnd\<close> of draws: the \<open>n\<close>-th call of a run
  returns \<open>rnd n\<close>. Every function that draws takes the tape and the position of its first
  draw, and reads its draws in the order in which the source evaluates them.
\<close>

text \<open>
  The product is taken over the reals. The code multiplies doubles, so at a few draws (such
  as \<open>0.6666666666666666\<close> for a range of three values) it rounds up to the next integer
  where the exact product stays below it; the same holds for the two products with
  \<open>0.3\<close> and \<open>0.7\<close> in level 10.
\<close>

definition randomInt :: "int \<Rightarrow> int \<Rightarrow> real \<Rightarrow> int" where
  "randomInt mn mx r = \<lfloor>r * real_of_int (mx - mn + 1)\<rfloor> + mn"

text \<open>Reading an array at an index: \<open>None\<close> is JavaScript's \<open>undefined\<close>.\<close>

definition at_index :: "'a list \<Rightarrow> int \<Rightarrow> 'a option" where
  "at_index xs k = (if 0 \<le> k \<and> k < int (length xs) then Some (xs ! nat k) else None)"

definition ops :: "string list" where
  "ops = [''+'', ''-'']"

definition mixedOps :: "string list" where
  "mixedOps = [''+'', ''-'', ''*'', ''/'']"

subsection \<open>The cases of the switch in generateEquationForLevel\<close>

text \<open>
  Each case returns \<open>equationStr\<close>, \<open>correctAnswer\<close> and the position of the next unread
  draw.
\<close>

definition addSubWithin :: "int \<Rightarrow> (nat \<Rightarrow> real) \<Rightarrow> nat \<Rightarrow> string \<times> int \<times> nat" where
  "addSubWithin limit rnd i =
     (let op = at_index ops (randomInt 0 1 (rnd i));
          a = randomInt 1 limit (rnd (i + 1));
          b = randomInt 1 limit (rnd (i + 2))
      in if op = Some ''+''
         then (let sum = a + b
               in if sum \<le> limit then (showInt a @ '' + '' @ showInt b, sum, i + 3)
                  else (showInt sum @ '' - '' @ showInt b, a, i + 3))
         else (let mx = max a b; mn = min a b
               in (showInt mx @ '' - '' @ showInt mn, mx - mn, i + 3)))"

definition level1 :: "(nat \<Rightarrow> real) \<Rightarrow> nat \<Rightarrow> string \<times> int \<times> nat" where
  "level1 = addSubWithin 10"

definition level2 :: "(nat \<Rightarrow> real) \<Rightarrow> nat \<Rightarrow> string \<times> int \<times> nat" where
  "level2 = addSubWithin 20"

definition level3 :: "(nat \<Rightarrow> real) \<Rightarrow> nat \<Rightarrow> string \<times> int \<times> nat" where
  "level3 rnd i =
     (let op = at_index mixedOps (randomInt 0 3 (rnd i))
      in if op = Some ''*''
         then (let a = randomInt 2 9 (rnd (i + 1)); b = randomInt 2 9 (rnd (i + 2))
               in (showInt a @ '' * '' @ showInt b, a * b, i + 3))
         else if op = Some ''/''
         then (let b = randomInt 2 9 (rnd (i + 1)); ans = randomInt 2 9 (rnd (i + 2));
                   a = b * ans
               in (showInt a @ '' / '' @ showInt b, ans, i + 3))
         else (let a = randomInt 1 50 (rnd (i + 1)); b = randomInt 1 50 (rnd (i + 2))
               in if op = Some ''+''
                  then (showInt a @ '' + '' @ showInt b, a + b, i + 3)
                  else (let mx = max a b; mn = min a b
                        in (showInt mx @ '' - '' @ showInt mn, mx - mn, i + 3))))"

definition level4 :: "(nat \<Rightarrow> real) \<Rightarrow> nat \<Rightarrow> string \<times> int \<times> nat" where
  "level4 rnd i =
     (let op = at_index ops (randomInt 0 1 (rnd i))
      in if op = Some ''+''
         then (let aUnits = randomInt 0 4 (rnd (i + 1));
                   bUnits = randomInt 0 4 (rnd (i + 2));
                   aTens = randomInt 1 4 (rnd (i + 3));
                   bTens = randomInt 1 4 (rnd (i + 4));
                   A = aTens * 10 + aUnits;
                   B = bTens * 10 + bUnits
               in (showInt A @ '' + '' @ showInt B, A + B, i + 5))
         else (let aUnits = randomInt 1 9 (rnd (i + 1));
                   bUnits = randomInt 0 aUnits (rnd (i + 2));
                   aTens = randomInt 2 9 (rnd (i + 3));
                   bTens = randomInt 1 aTens (rnd (i + 4));
                   A = aTens * 10 + aUnits;
                   B = bTens * 10 + bUnits
               in (showInt A @ '' - '' @ showInt B, A - B, i + 5)))"

definition level5 :: "(nat \<Rightarrow> real) \<Rightarrow> nat \<Rightarrow> string \<times> int \<times> nat" where
  "level5 rnd i =
     (let op = at_index ops (randomInt 0 1 (rnd i));
          A = randomInt 10 99 (rnd (i + 1));
          B = randomInt 10 99 (rnd (i + 2))
      in if op = Some ''+''
         then (showInt A @ '' + '' @ showInt B, A + B, i + 3)
         else (let mx = max A B; mn = min A B
               in (showInt mx @ '' - '' @ showInt mn, mx - mn, i + 3)))"

text \<open>Level 6 draws \<open>op1\<close> first and never uses it.\<close>

definition level6 :: "(nat \<Rightarrow> real) \<Rightarrow> nat \<Rightarrow> string \<times> int \<times> nat" where
  "level6 rnd i =
     (let A = randomInt 10 50 (rnd (i + 1));
          B = randomInt 5 30 (rnd (i + 2));
          C = randomInt 5 30 (rnd (i + 3));
          opA = (if randomInt 0 1 (rnd (i + 4)) = 0 then ''+'' else ''-'');
          opB = (if randomInt 0 1 (rnd (i + 5)) = 0 then ''+'' else ''-'');
          val0 = (if opA = ''+'' then A + B else A - B);
          equationStr =
            (if val0 < 0 then showInt B @ '' - '' @ showInt A @ '' '' @ opB @ '' '' @ showInt C
             else showInt A @ '' '' @ opA @ '' '' @ showInt B @ '' '' @ opB @ '' '' @ showInt C);
          val1 = (if val0 < 0 then B - A else val0);
          val2 = (if opB = ''+'' then val1 + C else val1 - C)
      in (equationStr, val2, i + 6))"

definition level7 :: "(nat \<Rightarrow> real) \<Rightarrow> nat \<Rightarrow> string \<times> int \<times> nat" where
  "level7 rnd i =
     (let A = randomInt 2 9 (rnd i);
          B = randomInt 2 20 (rnd (i + 1));
          C = randomInt 2 20 (rnd (i + 2))
      in if A * (B + C) > 200
         then (let mx = max B C; mn = min B C
               in (showInt A @ '' * ('' @ showInt mx @ '' - '' @ showInt mn @ '')'',
                   A * (mx - mn), i + 3))
         else (showInt A @ '' * ('' @ showInt B @ '' + '' @ showInt C @ '')'',
               A * (B + C), i + 3))"

definition level8 :: "(nat \<Rightarrow> real) \<Rightarrow> nat \<Rightarrow> string \<times> int \<times> nat" where
  "level8 rnd i =
     (let A = randomInt 100 500 (rnd i);
          B = randomInt 100 500 (rnd (i + 1));
          C = randomInt 100 500 (rnd (i + 2));
          op1 = (if rnd (i + 3) > 0.5 then ''+'' else ''-'');
          op2 = (if rnd (i + 4) > 0.5 then ''+'' else ''-'');
          term1 = (if op1 = ''+'' then A else max A B);
          term2 = (if op1 = ''+'' then B else min A B);
          val = (if op1 = ''+'' then term1 + term2 else term1 - term2);
          redraw = (op2 \<noteq> ''+'' \<and> val < C);
          term3 = (if redraw then randomInt 10 val (rnd (i + 5)) else C);
          finalVal = (if op2 = ''+'' then val + term3 else val - term3)
      in (showInt term1 @ '' '' @ op1 @ '' '' @ showInt term2 @ '' '' @ op2 @ '' '' @ showInt term3,
          finalVal, if redraw then i + 6 else i + 5))"

definition level9 :: "(nat \<Rightarrow> real) \<Rightarrow> nat \<Rightarrow> string \<times> int \<times> nat" where
  "level9 rnd i =
     (let pattern = randomInt 0 1 (rnd i)
      in if pattern = 0
         then (let B = randomInt 2 9 (rnd (i + 1));
                   resultDiv = randomInt 50 200 (rnd (i + 2));
                   A = B * resultDiv;
                   C = randomInt 10 300 (rnd (i + 3));
                   op2 = (if rnd (i + 4) > 0.5 then ''+'' else ''-'')
               in (showInt A @ '' / '' @ showInt B @ '' '' @ op2 @ '' '' @ showInt C,
                   if op2 = ''+'' then resultDiv + C else resultDiv - C, i + 5))
         else (let A = randomInt 20 90 (rnd (i + 1));
                   B = randomInt 2 9 (rnd (i + 2));
                   product = A * B;
                   C = randomInt 10 300 (rnd (i + 3));
                   op2 = (if rnd (i + 4) > 0.5 then ''+'' else ''-'')
               in (showInt A @ '' * '' @ showInt B @ '' '' @ op2 @ '' '' @ showInt C,
                   if op2 = ''+'' then product + C else product - C, i + 5)))"

definition level10 :: "(nat \<Rightarrow> real) \<Rightarrow> nat \<Rightarrow> string \<times> int \<times> nat" where
  "level10 rnd i =
     (let pattern = randomInt 0 1 (rnd i)
      in if pattern = 0
         then (let C = randomInt 2 5 (rnd (i + 1));
                   finalVal = randomInt 100 300 (rnd (i + 2));
                   numerator = finalVal * C;
                   split = randomInt \<lfloor>real_of_int numerator * 0.3\<rfloor>
                             \<lfloor>real_of_int numerator * 0.7\<rfloor> (rnd (i + 3));
                   A = split;
                   B = numerator - split
               in (''('' @ showInt A @ '' + '' @ showInt B @ '') / '' @ showInt C,
                   finalVal, i + 4))
         else (let A = randomInt 2 9 (rnd (i + 1));
                   bracketResult = randomInt 20 100 (rnd (i + 2));
                   B = randomInt (bracketResult + 10) (bracketResult + 100) (rnd (i + 3));
                   C = B - bracketResult
               in (showInt A @ '' * ('' @ showInt B @ '' - '' @ showInt C @ '')'',
                   A * bracketResult, i + 4)))"

definition levelDefault :: "(nat \<Rightarrow> real) \<Rightarrow> nat \<Rightarrow> string \<times> int \<times> nat" where
  "levelDefault rnd i =
     (let a = randomInt 1 10 (rnd i); b = randomInt 1 10 (rnd (i + 1))
      in (showInt a @ '' + '' @ showInt b, a + b, i + 2))"

definition levelCase :: "int \<Rightarrow> (nat \<Rightarrow> real) \<Rightarrow> nat \<Rightarrow> string \<times> int \<times> nat" where
  "levelCase lvl rnd i =
     (if lvl = 1 then level1 rnd i
      else if lvl = 2 then level2 rnd i
      else if lvl = 3 then level3 rnd i
      else if lvl = 4 then level4 rnd i
      else if lvl = 5 then level5 rnd i
      else if lvl = 6 then level6 rnd i
      else if lvl = 7 then level7 rnd i
      else if lvl = 8 then level8 rnd i
      else if lvl = 9 then level9 rnd i
      else if lvl = 10 then level10 rnd i
      else levelDefault rnd i)"

subsection \<open>generateEquationForLevel\<close>

text \<open>
  Lines 328 to 338: the value shown on the right of the equation, from \<open>correctAnswer\<close>,
  \<open>shouldBeCorrect\<close> and the two draws of the offset (its magnitude, then its sign).
\<close>

definition displayValue :: "bool \<Rightarrow> int \<Rightarrow> real \<Rightarrow> real \<Rightarrow> int" where
  "displayValue shouldBeCorrect correctAnswer r1 r2 =
     (if \<not> shouldBeCorrect
      then (let offset = randomInt 1 5 r1 * (if r2 > 0.5 then 1 else - 1);
                shown = correctAnswer + offset
            in if shown < 0 then \<bar>shown\<bar> else shown)
      else correctAnswer)"

text \<open>
  The result is the returned object \<open>{equation, isCorrect}\<close> as a pair, with the position
  of the next unread draw.
\<close>

definition generateEquationForLevel ::
  "int \<Rightarrow> (nat \<Rightarrow> real) \<Rightarrow> nat \<Rightarrow> (string \<times> bool) \<times> nat" where
  "generateEquationForLevel lvl rnd i =
     (let shouldBeCorrect = (rnd i > 0.5);
          c = levelCase lvl rnd (i + 1);
          equationStr = fst c;
          correctAnswer = fst (snd c);
          j = snd (snd c);
          shown = displayValue shouldBeCorrect correctAnswer (rnd j) (rnd (j + 1))
      in ((equationStr @ '' = '' @ showInt shown, shouldBeCorrect),
          if shouldBeCorrect then j else j + 2))"

subsection \<open>generateQuestions\<close>

text \<open>
  What the remote model does is outside the program: the call fails, the response has no
  text, the text is not JSON, the JSON has no \<open>problems\<close> array, or it has one.
\<close>

datatype remote_outcome =
  ApiFailure
  | EmptyText
  | ParseFailure
  | NoProblemsArray
  | Problems "MathProblem list"

datatype js_error = ApiError | NoResponse | SyntaxError | InvalidStructure

text \<open>The body of the \<open>try\<close> block: a thrown error is \<open>Inl\<close>.\<close>

definition remoteAttempt :: "int \<Rightarrow> remote_outcome \<Rightarrow> js_error + MathProblem list" where
  "remoteAttempt lvl outcome =
     (case outcome of
        ApiFailure \<Rightarrow> Inl ApiError
      | EmptyText \<Rightarrow> Inl NoResponse
      | ParseFailure \<Rightarrow> Inl SyntaxError
      | NoProblemsArray \<Rightarrow> Inl InvalidStructure
      | Problems ps \<Rightarrow> Inr (map (\<lambda>p. p\<lparr>difficulty := lvl\<rparr>) ps))"

text \<open>
  The loop of the \<open>catch\<close> block. \<open>now k\<close> is what \<open>Date.now()\<close> returns in iteration
  \<open>k\<close>.
\<close>

function localProblems ::
  "int \<Rightarrow> int \<Rightarrow> (nat \<Rightarrow> real) \<Rightarrow> (int \<Rightarrow> int) \<Rightarrow> int \<Rightarrow> nat \<Rightarrow> MathProblem list" where
  "localProblems count lvl rnd now i pos =
     (if i < count
      then \<lparr>id_field = ''local-'' @ showInt (now i) @ ''-'' @ showInt i,
            equation = fst (fst (generateEquationForLevel lvl rnd pos)),
            isCorrect = snd (fst (generateEquationForLevel lvl rnd pos)),
            difficulty = lvl\<rparr>
           # localProblems count lvl rnd now (i + 1) (snd (generateEquationForLevel lvl rnd pos))
      else [])"
  by pat_completeness auto
termination
  by (relation "measure (\<lambda>(count, lvl, rnd, now, i, pos). nat (count - i))") auto

declare localProblems.simps [simp del]

definition generateQuestions ::
  "int \<Rightarrow> int \<Rightarrow> remote_outcome \<Rightarrow> (nat \<Rightarrow> real) \<Rightarrow> (int \<Rightarrow> int) \<Rightarrow> js_error + MathProblem list" where
  "generateQuestions count lvl outcome rnd now =
     (case remoteAttempt lvl outcome of
        Inr problems \<Rightarrow> Inr problems
      | Inl error \<Rightarrow> Inr (localProblems count lvl rnd now 0 0))"

section \<open>Component state (App.tsx)\<close>

definition MAX_GAME_TIME :: real where
  "MAX_GAME_TIME = 150"

definition QUESTIONS_PER_ROUND :: int where
  "QUESTIONS_PER_ROUND = 10"

text \<open>One field per \<open>useState\<close> cell of \<open>App\<close>, with the source's names.\<close>

record app_state =
  gameState :: GameState
  questions :: "MathProblem list"
  score :: int
  gameTimeLeft :: real
  questionTimeLeft :: real
  currentQuestionMaxTime :: real
  streak :: int
  level :: int
  questionsAnswered :: int
  roundCorrectCount :: int
  roundHistory :: "real list"
  focusScore :: real
  dragOffset :: real

text \<open>
  What a handler asks of its collaborators: the two feedback sounds, the audio
  initialisation and \<open>loadQuestions(targetLevel)\<close>, whose promise resolves later.
\<close>

datatype side_effect =
  InitAudio
  | PlayCorrectSound
  | PlayIncorrectSound
  | LoadQuestions int

text \<open>
  \<open>loadQuestions(targetLevel)\<close> awaits
  \<open>generateQuestions(QUESTIONS_PER_ROUND, targetLevel)\<close> and then appends the result to
  whatever the queue holds when the promise resolves. The state argument is the state at
  that moment; the other arguments are what the question source meets (the remote outcome,
  the random draws, the clock).
\<close>

definition loadQuestions ::
  "int \<Rightarrow> remote_outcome \<Rightarrow> (nat \<Rightarrow> real) \<Rightarrow> (int \<Rightarrow> int) \<Rightarrow> app_state \<Rightarrow> app_state" where
  "loadQuestions targetLevel outcome rnd now s =
     (case generateQuestions QUESTIONS_PER_ROUND targetLevel outcome rnd now of
        Inr newQuestions \<Rightarrow> s\<lparr>questions := questions s @ newQuestions\<rparr>
      | Inl error \<Rightarrow> s)"

definition getQuestionTimeLimit :: "int \<Rightarrow> real" where
  "getQuestionTimeLimit lvl =
     (if lvl = 1 then 4
      else if lvl = 2 then 6
      else if lvl = 3 then 6
      else if lvl = 4 then 10
      else if lvl = 5 then 14
      else if lvl = 6 then 16
      else if lvl = 7 then 20
      else if lvl = 8 then 22
      else if lvl = 9 then 26
      else if lvl = 10 then 30
      else 4)"

text \<open>
  \<open>startGame\<close>: the synchronous part up to \<open>await loadQuestions(1)\<close>, and the part after
  the \<open>await\<close>.
\<close>

definition startGame_reset :: "app_state \<Rightarrow> app_state \<times> side_effect list" where
  "startGame_reset s =
     (let startLimit = getQuestionTimeLimit 1 in
      (s\<lparr>gameState := LOADING,
         score := 0,
         streak := 0,
         focusScore := 50,
         gameTimeLeft := MAX_GAME_TIME,
         questions := [],
         dragOffset := 0,
         level := 1,
         questionsAnswered := 0,
         roundCorrectCount := 0,
         roundHistory := [],
         currentQuestionMaxTime := startLimit,
         questionTimeLeft := startLimit\<rparr>,
       [InitAudio, LoadQuestions 1]))"

definition startGame_loaded ::
  "remote_outcome \<Rightarrow> (nat \<Rightarrow> real) \<Rightarrow> (int \<Rightarrow> int) \<Rightarrow> app_state \<Rightarrow> app_state" where
  "startGame_loaded outcome rnd now s = (loadQuestions 1 outcome rnd now s)\<lparr>gameState := PLAYING\<rparr>"

definition endGame :: "app_state \<Rightarrow> app_state" where
  "endGame s = s\<lparr>gameState := GAME_OVER\<rparr>"

definition getFocusState :: "real \<Rightarrow> FocusState" where
  "getFocusState sc = (if sc \<ge> 55 then HIGH else if sc > 30 then MEDIUM else LOW)"

subsection \<open>Focus updates\<close>

text \<open>
  The three state updaters the code passes to \<open>setFocusScore\<close>: in the tick
  (\<open>prev => Math.max(0, prev - 0.15)\<close>), on a success (\<open>prev => Math.min(100, prev + 4)\<close>)
  and on a failure (\<open>prev => Math.max(0, prev - 12)\<close>).
\<close>

definition decay :: "real \<Rightarrow> real" where
  "decay prev = max 0 (prev - 0.15)"

definition reward :: "real \<Rightarrow> real" where
  "reward prev = min 100 (prev + 4)"

definition penalize :: "real \<Rightarrow> real" where
  "penalize prev = max 0 (prev - 12)"

subsection \<open>The tick\<close>

text \<open>The local variable \<open>timePassed\<close> of the interval callback, from the focus score.\<close>

definition timePassed :: "real \<Rightarrow> real" where
  "timePassed fs = (if fs \<ge> 55 then 0.07 else if fs \<le> 30 then 0.14 else 0.1)"

text \<open>
  The interval callback. The updater of the global timer calls \<open>endGame\<close> when the time
  left is at most \<open>timePassed\<close>; the question timer moves only when the queue the
  callback closed over is non-empty.
\<close>

definition tick :: "app_state \<Rightarrow> app_state" where
  "tick s =
     (let tp = timePassed (focusScore s);
          s1 = (if gameTimeLeft s \<le> tp then (endGame s)\<lparr>gameTimeLeft := 0\<rparr>
                else s\<lparr>gameTimeLeft := gameTimeLeft s - tp\<rparr>);
          s2 = (if length (questions s) > 0
                then s1\<lparr>questionTimeLeft := max 0 (questionTimeLeft s1 - tp)\<rparr>
                else s1)
      in s2\<lparr>focusScore := decay (focusScore s2)\<rparr>)"

text \<open>The effect installs the interval only while the game is \<open>PLAYING\<close>.\<close>

definition tickLoop :: "app_state \<Rightarrow> app_state" where
  "tickLoop s = (if gameState s = PLAYING then tick s else s)"

subsection \<open>Difficulty adjustment\<close>

text \<open>
  \<open>checkDifficulty\<close> reads \<open>level\<close>, \<open>roundHistory\<close> and \<open>questions\<close> of the render it
  closed over; no earlier statement of the handler that calls it writes these cells, so
  they are read from the state it is given.
\<close>

definition checkDifficulty :: "real \<Rightarrow> app_state \<Rightarrow> app_state \<times> side_effect list" where
  "checkDifficulty finalRoundAccuracy s =
     (let (newLevel, shouldUpdate) =
            (if finalRoundAccuracy \<le> 0.5 then (max 1 (level s - 1), True)
             else if length (roundHistory s) > 0 then
               (let prevRoundAccuracy = last (roundHistory s);
                    twoRoundAverage = (finalRoundAccuracy + prevRoundAccuracy) / 2
                in if twoRoundAverage > 0.9 then (min 10 (level s + 1), True)
                   else (level s, False))
             else (level s, False))
      in if shouldUpdate \<and> newLevel \<noteq> level s
         then (s\<lparr>level := newLevel, roundHistory := []\<rparr>, [LoadQuestions newLevel])
         else (s\<lparr>roundHistory := roundHistory s @ [finalRoundAccuracy]\<rparr>,
               if length (questions s) < 5 then [LoadQuestions (level s)] else []))"

subsection \<open>The swipe handler\<close>

text \<open>Lines 216 to 222: whether the judgment matches the card.\<close>

definition isSuccess :: "SwipeDirection \<Rightarrow> MathProblem \<Rightarrow> bool" where
  "isSuccess direction currentCard =
     (if direction \<noteq> NONE
      then (direction = RIGHT \<and> isCorrect currentCard) \<or>
           (direction = LEFT \<and> \<not> isCorrect currentCard)
      else False)"

text \<open>
  Lines 224 to 244: the updates of a success or of a failure. The first argument is the
  render the handler closed over (it supplies \<open>streak\<close>), the last the pending state.
\<close>

definition handleSwipe_outcome ::
  "app_state \<Rightarrow> SwipeDirection \<Rightarrow> bool \<Rightarrow> app_state \<Rightarrow> app_state \<times> side_effect list" where
  "handleSwipe_outcome c direction success s =
     (if success
      then (s\<lparr>score := score s + 10 + streak c * 2,
              streak := streak s + 1,
              roundCorrectCount := roundCorrectCount s + 1,
              focusScore := reward (focusScore s)\<rparr>,
            [PlayCorrectSound])
      else (s\<lparr>streak := 0, focusScore := penalize (focusScore s)\<rparr>,
            if direction \<noteq> NONE then [PlayIncorrectSound] else []))"

text \<open>Lines 251 and 252: the accuracy of the round that the judgment completes.\<close>

definition roundAccuracy :: "bool \<Rightarrow> app_state \<Rightarrow> real" where
  "roundAccuracy success c =
     (let finalRoundCorrect =
            (if success then roundCorrectCount c + 1 else roundCorrectCount c)
      in real_of_int finalRoundCorrect / real_of_int QUESTIONS_PER_ROUND)"

text \<open>
  Lines 246 to 259: round completion. \<open>roundCorrectCount\<close>, \<open>questionsAnswered\<close>,
  \<open>questions\<close> and \<open>level\<close> are those of the closed-over render \<open>c\<close>.
\<close>

definition handleSwipe_round ::
  "app_state \<Rightarrow> bool \<Rightarrow> app_state \<Rightarrow> app_state \<times> side_effect list" where
  "handleSwipe_round c success s =
     (let nextQuestionCount = questionsAnswered c + 1;
          s1 = s\<lparr>questionsAnswered := nextQuestionCount\<rparr>
      in if nextQuestionCount mod QUESTIONS_PER_ROUND = 0
         then (let accuracy = roundAccuracy success c;
                   r = checkDifficulty accuracy s1
               in ((fst r)\<lparr>roundCorrectCount := 0\<rparr>, snd r))
         else (s1, if length (questions c) < 5 then [LoadQuestions (level c)] else []))"

definition handleSwipe :: "SwipeDirection \<Rightarrow> app_state \<Rightarrow> app_state \<times> side_effect list" where
  "handleSwipe direction s =
     (let s0 = s\<lparr>dragOffset := 0\<rparr> in
      case questions s of
        [] \<Rightarrow> (s0, [])
      | currentCard # rest \<Rightarrow>
          (let nextLimit = getQuestionTimeLimit (level s);
               s1 = s0\<lparr>currentQuestionMaxTime := nextLimit, questionTimeLeft := nextLimit\<rparr>;
               success = isSuccess direction currentCard;
               j = handleSwipe_outcome s direction success s1;
               r = handleSwipe_round s success (fst j);
               s4 = fst r
           in (s4\<lparr>questions := drop 1 (questions s4)\<rparr>, snd j @ snd r)))"

subsection \<open>The question timeout effect\<close>

text \<open>
  The effect that React runs after a render in which \<open>questionTimeLeft\<close>, \<open>gameState\<close>
  or \<open>questions.length\<close> changed.
\<close>

definition timeoutEffect :: "app_state \<Rightarrow> app_state \<times> side_effect list" where
  "timeoutEffect s =
     (if gameState s = PLAYING \<and> questionTimeLeft s \<le> 0 \<and> length (questions s) > 0
      then handleSwipe NONE s
      else (s, []))"

section \<open>Sessions\<close>

text \<open>
  React runs one handler at a time: a tick of the interval, a swipe on the top card, or
  the resolution of a pending \<open>loadQuestions\<close>. After the render that follows, it runs
  the timeout effect. A step is a handler followed by the effect; it also records which
  card was judged and how.
\<close>

datatype event =
  Tick
  | Swipe SwipeDirection
  | QuestionsLoaded int remote_outcome "nat \<Rightarrow> real" "int \<Rightarrow> int"

definition judged :: "SwipeDirection \<Rightarrow> app_state \<Rightarrow> (SwipeDirection \<times> MathProblem) list" where
  "judged direction s =
     (case questions s of [] \<Rightarrow> [] | currentCard # rest \<Rightarrow> [(direction, currentCard)])"

text \<open>The condition of the timeout effect.\<close>

definition timeoutDue :: "app_state \<Rightarrow> bool" where
  "timeoutDue s =
     (gameState s = PLAYING \<and> questionTimeLeft s \<le> 0 \<and> length (questions s) > 0)"

definition handler ::
  "event \<Rightarrow> app_state \<Rightarrow> app_state \<times> (SwipeDirection \<times> MathProblem) list" where
  "handler e s =
     (case e of
        Tick \<Rightarrow> (tickLoop s, [])
      | Swipe direction \<Rightarrow> (fst (handleSwipe direction s), judged direction s)
      | QuestionsLoaded targetLevel outcome rnd now \<Rightarrow>
          (loadQuestions targetLevel outcome rnd now s, []))"

definition step ::
  "event \<Rightarrow> app_state \<Rightarrow> app_state \<times> (SwipeDirection \<times> MathProblem) list" where
  "step e s =
     (let h = handler e s;
          s1 = fst h
      in (fst (timeoutEffect s1), snd h @ (if timeoutDue s1 then judged NONE s1 else [])))"

fun run ::
  "event list \<Rightarrow> app_state \<Rightarrow> app_state \<times> (SwipeDirection \<times> MathProblem) list" where
  "run [] s = (s, [])"
| "run (e # es) s =
     (let r = step e s; rs = run es (fst r) in (fst rs, snd r @ snd rs))"

text \<open>The questions that the loads of a session appended, in order.\<close>

fun delivered :: "event list \<Rightarrow> MathProblem list" where
  "delivered [] = []"
| "delivered (QuestionsLoaded targetLevel outcome rnd now # es) =
     (case generateQuestions QUESTIONS_PER_ROUND targetLevel outcome rnd now of
        Inr newQuestions \<Rightarrow> newQuestions
      | Inl error \<Rightarrow> [])
     @ delivered es"
| "delivered (e # es) = delivered es"

section \<open>The difficulty rule as the specification words it\<close>

text \<open>
  Level-down if the accuracy is at most 0.5, to \<open>max(1, level - 1)\<close>; else level-up if
  the history is non-empty and the average with its last entry exceeds 0.9, to
  \<open>min(10, level + 1)\<close>; otherwise no change. This definition is compared with
  \<open>checkDifficulty\<close> below.
\<close>

definition spec_newLevel :: "real \<Rightarrow> int \<Rightarrow> real list \<Rightarrow> int" where
  "spec_newLevel a lvl history =
     (if a \<le> 0.5 then max 1 (lvl - 1)
      else if history \<noteq> [] \<and> (a + last history) / 2 > 0.9 then min 10 (lvl + 1)
      else lvl)"

section \<open>Concrete sessions\<close>

text \<open>A tape of draws given by a list; the draws after its end are \<open>0\<close>.\<close>

definition draws :: "real list \<Rightarrow> nat \<Rightarrow> real" where
  "draws xs n = (if n < length xs then xs ! n else 0)"

text \<open>A card showing a true or a false equation.\<close>

definition sample_card :: "bool \<Rightarrow> MathProblem" where
  "sample_card truth =
     \<lparr>id_field = ''local-0-0'',
      equation = (if truth then ''1 + 1 = 2'' else ''1 + 1 = 3''),
      isCorrect = truth,
      difficulty = 1\<rparr>"

text \<open>
  A session in play with the given queue, level, number of answered questions, correct
  answers of the running round and round history; the other cells are as a new game sets
  them, and the question timer is full.
\<close>

definition session_at ::
  "MathProblem list \<Rightarrow> int \<Rightarrow> int \<Rightarrow> int \<Rightarrow> real list \<Rightarrow> app_state" where
  "session_at queue lvl answered correct history =
     \<lparr>gameState = PLAYING,
      questions = queue,
      score = 0,
      gameTimeLeft = MAX_GAME_TIME,
      questionTimeLeft = getQuestionTimeLimit lvl,
      currentQuestionMaxTime = getQuestionTimeLimit lvl,
      streak = 0,
      level = lvl,
      questionsAnswered = answered,
      roundCorrectCount = correct,
      roundHistory = history,
      focusScore = 50,
      dragOffset = 0\<rparr>"

lemmas session_defs =
  session_at_def sample_card_def MAX_GAME_TIME_def QUESTIONS_PER_ROUND_def
  getQuestionTimeLimit_def

section \<open>Properties of the question source\<close>


text \<open>The loop of the fallback runs \<open>count - i\<close> times and tags every problem.\<close>

lemma localProblems_length:
  "length (localProblems count lvl rnd now i pos) = nat (count - i)"
proof (induction count lvl rnd now i pos rule: localProblems.induct)
  case (1 count lvl rnd now i pos)
  show ?case
  proof (cases "i < count")
    case True
    with "1" show ?thesis
      by (subst localProblems.simps) simp
  next
    case False
    then show ?thesis
      by (subst localProblems.simps) simp
  qed
qed


text \<open>Whatever the remote source does, \<open>generateQuestions\<close> returns a list.\<close>

lemma generateQuestions_returns:
  "\<exists>qs. generateQuestions count lvl outcome rnd now = Inr qs"
  by (simp add: generateQuestions_def split: sum.splits)


lemma generateQuestions_fallback_length:
  "remoteAttempt lvl outcome = Inl e \<Longrightarrow> generateQuestions count lvl outcome rnd now = Inr qs \<Longrightarrow>
   length qs = nat count"
  using localProblems_length [of count lvl rnd now 0 0]
  by (auto simp: generateQuestions_def)

text \<open>A draw in \<open>[0, 1)\<close> gives an integer between the two bounds.\<close>

lemma randomInt_range:
  assumes "0 \<le> r" "r < 1" "mn \<le> mx"
  shows "mn \<le> randomInt mn mx r \<and> randomInt mn mx r \<le> mx"
proof -
  let ?n = "real_of_int (mx - mn + 1)"
  have n: "0 < ?n" using assms by simp
  have lo: "0 \<le> r * ?n" using assms n by simp
  have hi: "r * ?n < ?n" using assms n by simp
  have "0 \<le> \<lfloor>r * ?n\<rfloor>" using lo by simp
  moreover have "\<lfloor>r * ?n\<rfloor> < mx - mn + 1" using hi by (subst floor_less_iff) simp
  ultimately show ?thesis by (simp add: randomInt_def)
qed

text \<open>
  The value shown for an equation meant to be wrong equals the true value in exactly two
  situations: the true value is 1 and the offset is \<open>-2\<close>, or the true value is 2 and the
  offset is \<open>-4\<close>. In both the sum is negative and its absolute value is the true value.
\<close>

lemma displayValue_wrong_coincides:
  assumes "0 \<le> r1" "r1 < 1"
  shows "displayValue False c r1 r2 = c \<longleftrightarrow>
         \<not> r2 > 0.5 \<and> ((c = 1 \<and> randomInt 1 5 r1 = 2) \<or> (c = 2 \<and> randomInt 1 5 r1 = 4))"
proof -
  have "1 \<le> randomInt 1 5 r1 \<and> randomInt 1 5 r1 \<le> 5"
    using randomInt_range [OF assms, of 1 5] by simp
  then show ?thesis
    by (auto simp: displayValue_def Let_def)
qed

section \<open>Properties of the handlers\<close>

subsection \<open>The tick, cell by cell\<close>

lemma timePassed_pos: "0 < timePassed fs"
  by (simp add: timePassed_def)

lemma tick_gameTimeLeft:
  "gameTimeLeft (tick s) =
     (if gameTimeLeft s \<le> timePassed (focusScore s) then 0
      else gameTimeLeft s - timePassed (focusScore s))"
  by (simp add: tick_def Let_def endGame_def)

lemma tick_gameState:
  "gameState (tick s) =
     (if gameTimeLeft s \<le> timePassed (focusScore s) then GAME_OVER else gameState s)"
  by (simp add: tick_def Let_def endGame_def)

lemma tick_questionTimeLeft:
  "questionTimeLeft (tick s) =
     (if questions s \<noteq> [] then max 0 (questionTimeLeft s - timePassed (focusScore s))
      else questionTimeLeft s)"
  by (simp add: tick_def Let_def endGame_def)

lemma tick_focusScore: "focusScore (tick s) = decay (focusScore s)"
  by (simp add: tick_def Let_def endGame_def)

lemma tick_questions: "questions (tick s) = questions s"
  by (simp add: tick_def Let_def endGame_def)

subsection \<open>What the parts of the swipe handler leave alone\<close>

lemma getQuestionTimeLimit_pos: "0 < getQuestionTimeLimit lvl"
  by (simp add: getQuestionTimeLimit_def)

lemma checkDifficulty_frame:
  "questions (fst (checkDifficulty a s)) = questions s"
  "score (fst (checkDifficulty a s)) = score s"
  "streak (fst (checkDifficulty a s)) = streak s"
  "focusScore (fst (checkDifficulty a s)) = focusScore s"
  "gameState (fst (checkDifficulty a s)) = gameState s"
  "gameTimeLeft (fst (checkDifficulty a s)) = gameTimeLeft s"
  "questionTimeLeft (fst (checkDifficulty a s)) = questionTimeLeft s"
  "currentQuestionMaxTime (fst (checkDifficulty a s)) = currentQuestionMaxTime s"
  "questionsAnswered (fst (checkDifficulty a s)) = questionsAnswered s"
  "roundCorrectCount (fst (checkDifficulty a s)) = roundCorrectCount s"
  by (simp_all add: checkDifficulty_def Let_def split: prod.splits)

lemma outcome_frame:
  "questions (fst (handleSwipe_outcome c d b s)) = questions s"
  "gameState (fst (handleSwipe_outcome c d b s)) = gameState s"
  "gameTimeLeft (fst (handleSwipe_outcome c d b s)) = gameTimeLeft s"
  "questionTimeLeft (fst (handleSwipe_outcome c d b s)) = questionTimeLeft s"
  "currentQuestionMaxTime (fst (handleSwipe_outcome c d b s)) = currentQuestionMaxTime s"
  "level (fst (handleSwipe_outcome c d b s)) = level s"
  "roundHistory (fst (handleSwipe_outcome c d b s)) = roundHistory s"
  "questionsAnswered (fst (handleSwipe_outcome c d b s)) = questionsAnswered s"
  by (simp_all add: handleSwipe_outcome_def)

lemma round_frame:
  "questions (fst (handleSwipe_round c b s)) = questions s"
  "gameState (fst (handleSwipe_round c b s)) = gameState s"
  "gameTimeLeft (fst (handleSwipe_round c b s)) = gameTimeLeft s"
  "questionTimeLeft (fst (handleSwipe_round c b s)) = questionTimeLeft s"
  "currentQuestionMaxTime (fst (handleSwipe_round c b s)) = currentQuestionMaxTime s"
  "score (fst (handleSwipe_round c b s)) = score s"
  "streak (fst (handleSwipe_round c b s)) = streak s"
  "focusScore (fst (handleSwipe_round c b s)) = focusScore s"
  "questionsAnswered (fst (handleSwipe_round c b s)) = questionsAnswered c + 1"
  by (simp_all add: handleSwipe_round_def Let_def checkDifficulty_frame)

text \<open>The handler with the state after each of its parts named.\<close>

lemma handleSwipe_Cons:
  assumes "questions s = q # qs"
  shows "handleSwipe d s =
    (let s1 = s\<lparr>dragOffset := 0,
                 currentQuestionMaxTime := getQuestionTimeLimit (level s),
                 questionTimeLeft := getQuestionTimeLimit (level s)\<rparr>;
         j = handleSwipe_outcome s d (isSuccess d q) s1;
         r = handleSwipe_round s (isSuccess d q) (fst j)
     in ((fst r)\<lparr>questions := qs\<rparr>, snd j @ snd r))"
  using assms
  by (simp add: handleSwipe_def Let_def round_frame outcome_frame drop_Suc)

lemma handleSwipe_empty: "questions s = [] \<Longrightarrow> handleSwipe d s = (s\<lparr>dragOffset := 0\<rparr>, [])"
  by (simp add: handleSwipe_def)

lemma handleSwipe_questions: "questions (fst (handleSwipe d s)) = tl (questions s)"
  by (cases "questions s") (simp_all add: handleSwipe_empty handleSwipe_Cons Let_def)

lemma handleSwipe_gameState: "gameState (fst (handleSwipe d s)) = gameState s"
  by (cases "questions s")
    (simp_all add: handleSwipe_empty handleSwipe_Cons Let_def round_frame outcome_frame)

lemma handleSwipe_gameTimeLeft: "gameTimeLeft (fst (handleSwipe d s)) = gameTimeLeft s"
  by (cases "questions s")
    (simp_all add: handleSwipe_empty handleSwipe_Cons Let_def round_frame outcome_frame)

lemma handleSwipe_questionTimeLeft:
  "questionTimeLeft (fst (handleSwipe d s)) =
     (if questions s = [] then questionTimeLeft s else getQuestionTimeLimit (level s))"
  by (cases "questions s")
    (simp_all add: handleSwipe_empty handleSwipe_Cons Let_def round_frame outcome_frame)

lemma handleSwipe_currentQuestionMaxTime:
  "currentQuestionMaxTime (fst (handleSwipe d s)) =
     (if questions s = [] then currentQuestionMaxTime s else getQuestionTimeLimit (level s))"
  by (cases "questions s")
    (simp_all add: handleSwipe_empty handleSwipe_Cons Let_def round_frame outcome_frame)


lemma handleSwipe_streak:
  "questions s = q # qs \<Longrightarrow>
   streak (fst (handleSwipe d s)) = (if isSuccess d q then streak s + 1 else 0)"
  by (simp add: handleSwipe_Cons Let_def round_frame handleSwipe_outcome_def)

lemma handleSwipe_focusScore:
  "questions s = q # qs \<Longrightarrow>
   focusScore (fst (handleSwipe d s)) =
     (if isSuccess d q then reward (focusScore s) else penalize (focusScore s))"
  by (simp add: handleSwipe_Cons Let_def round_frame handleSwipe_outcome_def)

text \<open>The sounds come from the outcome part, the load requests from the round part.\<close>

lemma outcome_effects:
  "snd (handleSwipe_outcome c d b s) =
     (if b then [PlayCorrectSound] else if d \<noteq> NONE then [PlayIncorrectSound] else [])"
  by (simp add: handleSwipe_outcome_def)

lemma checkDifficulty_effects:
  "snd (checkDifficulty a s) =
     (if level (fst (checkDifficulty a s)) \<noteq> level s
      then [LoadQuestions (level (fst (checkDifficulty a s)))]
      else if length (questions s) < 5 then [LoadQuestions (level s)] else [])"
  by (simp add: checkDifficulty_def Let_def split: prod.splits)

lemma round_effects_sound:
  "PlayCorrectSound \<notin> set (snd (handleSwipe_round c b s))"
  "PlayIncorrectSound \<notin> set (snd (handleSwipe_round c b s))"
  by (simp_all add: handleSwipe_round_def Let_def checkDifficulty_effects)

lemma handleSwipe_sounds:
  assumes "questions s = q # qs"
  shows "(PlayCorrectSound \<in> set (snd (handleSwipe d s)) \<longleftrightarrow> isSuccess d q) \<and>
   (PlayIncorrectSound \<in> set (snd (handleSwipe d s)) \<longleftrightarrow> \<not> isSuccess d q \<and> d \<noteq> NONE)"
  by (simp add: handleSwipe_Cons [OF assms] Let_def outcome_effects round_effects_sound)

subsection \<open>The timeout effect\<close>

lemma timeoutEffect_idle: "\<not> timeoutDue s \<Longrightarrow> timeoutEffect s = (s, [])"
  by (auto simp: timeoutEffect_def timeoutDue_def)

lemma timeoutEffect_fire: "timeoutDue s \<Longrightarrow> timeoutEffect s = handleSwipe NONE s"
  by (auto simp: timeoutEffect_def timeoutDue_def)

lemma handleSwipe_not_due: "questions s \<noteq> [] \<Longrightarrow> \<not> timeoutDue (fst (handleSwipe d s))"
  using getQuestionTimeLimit_pos [of "level s"]
  by (simp add: timeoutDue_def handleSwipe_questionTimeLeft)

lemma timeoutEffect_not_due: "\<not> timeoutDue (fst (timeoutEffect s))"
proof (cases "timeoutDue s")
  case True
  then have "questions s \<noteq> []" by (auto simp: timeoutDue_def)
  then show ?thesis
    using True by (simp add: timeoutEffect_fire handleSwipe_not_due)
next
  case False
  then show ?thesis by (simp add: timeoutEffect_idle)
qed

subsection \<open>Level, history and load requests\<close>

text \<open>\<open>checkDifficulty\<close> computes the level that the specification's rule gives.\<close>

lemma checkDifficulty_level:
  "level (fst (checkDifficulty a s)) = spec_newLevel a (level s) (roundHistory s)"
  by (simp add: checkDifficulty_def spec_newLevel_def Let_def split: prod.splits)


lemma round_level:
  "level (fst (handleSwipe_round c b s)) =
     (if (questionsAnswered c + 1) mod 10 = 0
      then spec_newLevel (roundAccuracy b c) (level s) (roundHistory s)
      else level s)"
  by (simp add: handleSwipe_round_def Let_def checkDifficulty_level QUESTIONS_PER_ROUND_def)



lemma round_effects:
  "snd (handleSwipe_round c b s) =
     (if (questionsAnswered c + 1) mod 10 = 0
      then (if spec_newLevel (roundAccuracy b c) (level s) (roundHistory s) \<noteq> level s
            then [LoadQuestions (spec_newLevel (roundAccuracy b c) (level s) (roundHistory s))]
            else if length (questions s) < 5 then [LoadQuestions (level s)] else [])
      else if length (questions c) < 5 then [LoadQuestions (level c)] else [])"
  by (simp add: handleSwipe_round_def Let_def checkDifficulty_effects checkDifficulty_level
      QUESTIONS_PER_ROUND_def)

lemma handleSwipe_level:
  "questions s = q # qs \<Longrightarrow>
   level (fst (handleSwipe d s)) =
     (if (questionsAnswered s + 1) mod 10 = 0
      then spec_newLevel (roundAccuracy (isSuccess d q) s) (level s) (roundHistory s)
      else level s)"
  by (simp add: handleSwipe_Cons Let_def round_level outcome_frame)



lemma handleSwipe_loads:
  "questions s = q # qs \<Longrightarrow>
   LoadQuestions lvl \<in> set (snd (handleSwipe d s)) \<longleftrightarrow>
     (if level (fst (handleSwipe d s)) \<noteq> level s then lvl = level (fst (handleSwipe d s))
      else lvl = level s \<and> length (questions s) < 5)"
  by (simp add: handleSwipe_Cons Let_def round_level round_effects outcome_frame outcome_effects)

subsection \<open>Judgments and the concrete sessions\<close>


lemma session_at_sel:
  "gameState (session_at qu l n c h) = PLAYING"
  "questions (session_at qu l n c h) = qu"
  "score (session_at qu l n c h) = 0"
  "streak (session_at qu l n c h) = 0"
  "level (session_at qu l n c h) = l"
  "questionsAnswered (session_at qu l n c h) = n"
  "roundCorrectCount (session_at qu l n c h) = c"
  "roundHistory (session_at qu l n c h) = h"
  "focusScore (session_at qu l n c h) = 50"
  "gameTimeLeft (session_at qu l n c h) = 150"
  "questionTimeLeft (session_at qu l n c h) = getQuestionTimeLimit l"
  by (simp_all add: session_at_def MAX_GAME_TIME_def)

lemma sample_card_sel: "isCorrect (sample_card b) = b"
  by (simp add: sample_card_def)

subsection \<open>Sessions\<close>

text \<open>
  In a session every card is judged at most once and in queue order: the cards judged so
  far, followed by the queue, are the initial queue followed by what the loads delivered.
\<close>

lemma loadQuestions_questions:
  "questions (loadQuestions lvl outcome rnd now s) =
     questions s @ (case generateQuestions QUESTIONS_PER_ROUND lvl outcome rnd now of
                      Inr newQuestions \<Rightarrow> newQuestions | Inl error \<Rightarrow> [])"
  by (simp add: loadQuestions_def split: sum.splits)

lemma loadQuestions_frame:
  "gameState (loadQuestions lvl outcome rnd now s) = gameState s"
  "gameTimeLeft (loadQuestions lvl outcome rnd now s) = gameTimeLeft s"
  "questionTimeLeft (loadQuestions lvl outcome rnd now s) = questionTimeLeft s"
  by (simp_all add: loadQuestions_def split: sum.splits)

lemma judged_handleSwipe:
  "map snd (judged d s) @ questions (fst (handleSwipe d s)) = questions s"
  by (cases "questions s") (simp_all add: judged_def handleSwipe_questions)

lemma handler_questions:
  "map snd (snd (handler e s)) @ questions (fst (handler e s)) = questions s @ delivered [e]"
  by (cases e)
    (simp_all add: handler_def tickLoop_def tick_questions judged_handleSwipe
      loadQuestions_questions)

lemma effect_questions:
  "map snd (if timeoutDue s then judged NONE s else []) @ questions (fst (timeoutEffect s))
     = questions s"
  by (cases "timeoutDue s")
    (simp_all add: timeoutEffect_fire timeoutEffect_idle judged_handleSwipe)

lemma step_questions:
  "map snd (snd (step e s)) @ questions (fst (step e s)) = questions s @ delivered [e]"
proof -
  let ?h = "handler e s"
  have "map snd (snd (step e s)) @ questions (fst (step e s)) =
        map snd (snd ?h) @
        (map snd (if timeoutDue (fst ?h) then judged NONE (fst ?h) else [])
         @ questions (fst (timeoutEffect (fst ?h))))"
    by (simp add: step_def Let_def)
  also have "\<dots> = map snd (snd ?h) @ questions (fst ?h)"
    by (simp only: effect_questions)
  also have "\<dots> = questions s @ delivered [e]"
    by (rule handler_questions)
  finally show ?thesis .
qed

lemma delivered_Cons: "delivered (e # es) = delivered [e] @ delivered es"
  by (cases e) simp_all

lemma run_questions:
  "map snd (snd (run es s)) @ questions (fst (run es s)) = questions s @ delivered es"
proof (induction es arbitrary: s)
  case Nil
  show ?case by simp
next
  case (Cons e es)
  let ?r = "step e s"
  have "map snd (snd (run (e # es) s)) @ questions (fst (run (e # es) s)) =
        map snd (snd ?r) @ (map snd (snd (run es (fst ?r))) @ questions (fst (run es (fst ?r))))"
    by (simp add: Let_def)
  also have "\<dots> = map snd (snd ?r) @ (questions (fst ?r) @ delivered es)"
    by (simp only: Cons.IH)
  also have "\<dots> = (questions s @ delivered [e]) @ delivered es"
    using step_questions [of e s] by simp
  also have "\<dots> = questions s @ delivered (e # es)"
    using delivered_Cons [of e es] by simp
  finally show ?case .
qed

lemma step_not_due: "\<not> timeoutDue (fst (step e s))"
  by (simp add: step_def Let_def timeoutEffect_not_due)

lemma run_not_due: "es \<noteq> [] \<Longrightarrow> \<not> timeoutDue (fst (run es s))"
proof (induction es arbitrary: s)
  case Nil
  then show ?case by simp
next
  case (Cons e es)
  show ?case
  proof (cases es)
    case Nil
    then show ?thesis by (simp add: Let_def step_not_due)
  next
    case (Cons e' es')
    then show ?thesis using Cons.IH [of "fst (step e s)"] by (simp add: Let_def)
  qed
qed

lemma timeoutEffect_frame:
  "gameState (fst (timeoutEffect s)) = gameState s"
  "gameTimeLeft (fst (timeoutEffect s)) = gameTimeLeft s"
  by (cases "timeoutDue s";
      simp add: timeoutEffect_fire timeoutEffect_idle handleSwipe_gameState
        handleSwipe_gameTimeLeft)+

lemma timeoutEffect_questionTimeLeft:
  "0 \<le> questionTimeLeft s \<Longrightarrow> 0 \<le> questionTimeLeft (fst (timeoutEffect s))"
  using getQuestionTimeLimit_pos [of "level s"]
  by (cases "timeoutDue s")
    (simp_all add: timeoutEffect_fire timeoutEffect_idle handleSwipe_questionTimeLeft)

lemma handler_gameTimeLeft:
  "0 \<le> gameTimeLeft s \<Longrightarrow>
   0 \<le> gameTimeLeft (fst (handler e s)) \<and> gameTimeLeft (fst (handler e s)) \<le> gameTimeLeft s"
  using timePassed_pos [of "focusScore s"]
  by (cases e)
    (simp_all add: handler_def tickLoop_def tick_gameTimeLeft handleSwipe_gameTimeLeft
      loadQuestions_frame)

lemma handler_questionTimeLeft:
  "0 \<le> questionTimeLeft s \<Longrightarrow> 0 \<le> questionTimeLeft (fst (handler e s))"
  using getQuestionTimeLimit_pos [of "level s"]
  by (cases e)
    (simp_all add: handler_def tickLoop_def tick_questionTimeLeft handleSwipe_questionTimeLeft
      loadQuestions_frame)

lemma step_gameTimeLeft:
  "0 \<le> gameTimeLeft s \<Longrightarrow>
   0 \<le> gameTimeLeft (fst (step e s)) \<and> gameTimeLeft (fst (step e s)) \<le> gameTimeLeft s"
  using handler_gameTimeLeft [of s e]
  by (simp add: step_def Let_def timeoutEffect_frame)

lemma step_questionTimeLeft:
  "0 \<le> questionTimeLeft s \<Longrightarrow> 0 \<le> questionTimeLeft (fst (step e s))"
  using handler_questionTimeLeft [of s e]
  by (simp add: step_def Let_def timeoutEffect_questionTimeLeft)

lemma run_gameTimeLeft:
  "0 \<le> gameTimeLeft s \<Longrightarrow>
   0 \<le> gameTimeLeft (fst (run es s)) \<and> gameTimeLeft (fst (run es s)) \<le> gameTimeLeft s"
proof (induction es arbitrary: s)
  case Nil
  then show ?case by simp
next
  case (Cons e es)
  from step_gameTimeLeft [OF Cons.prems, of e]
  have a: "0 \<le> gameTimeLeft (fst (step e s))" and b: "gameTimeLeft (fst (step e s)) \<le> gameTimeLeft s"
    by simp_all
  from Cons.IH [OF a] b show ?case
    by (simp add: Let_def)
qed

lemma run_questionTimeLeft:
  "0 \<le> questionTimeLeft s \<Longrightarrow> 0 \<le> questionTimeLeft (fst (run es s))"
proof (induction es arbitrary: s)
  case Nil
  then show ?case by simp
next
  case (Cons e es)
  from Cons.IH [OF step_questionTimeLeft [OF Cons.prems, of e]] show ?case
    by (simp add: Let_def)
qed

lemma step_game_over:
  "gameState s = GAME_OVER \<Longrightarrow>
   gameState (fst (step e s)) = GAME_OVER \<and> gameTimeLeft (fst (step e s)) = gameTimeLeft s"
  by (cases e)
    (simp_all add: step_def Let_def handler_def tickLoop_def timeoutEffect_frame
      handleSwipe_gameState handleSwipe_gameTimeLeft loadQuestions_frame)

text \<open>A tick or a load is followed by at most one judgment, and that one is a timeout.\<close>

lemma step_timeouts:
  "e = Tick \<or> (\<exists>lvl outcome rnd now. e = QuestionsLoaded lvl outcome rnd now) \<Longrightarrow>
   length (snd (step e s)) \<le> 1 \<and> (\<forall>j \<in> set (snd (step e s)). fst j = NONE)"
  by (auto simp: step_def Let_def handler_def judged_def split: list.splits)

subsection \<open>What a load appends\<close>




section \<open>The claims\<close>

subsection \<open>C1: the question timeout\<close>

text \<open>
  C1. While the game is \<open>PLAYING\<close> and the queue is non-empty, a question timer at 0 makes
  the timeout effect run the swipe handler once with direction \<open>NONE\<close>: the judgment is a
  failure (streak 0, no sound), the front card leaves the queue, and the timer is set back
  to the positive limit of the level. In the state that results the condition of the
  effect is false, so running the effect again judges nothing and requests nothing: no
  second timeout fires for the card, and the timer does not sit at 0. In a session, no
  timeout is due after any step, and the cards judged so far followed by the queue are
  the initial queue followed by the delivered questions: no card is judged twice.
\<close>

theorem timeout_fires_once:
  assumes "gameState s = PLAYING" and "questionTimeLeft s \<le> 0" and "questions s = q # qs"
  shows "timeoutEffect s = handleSwipe NONE s
    \<and> \<not> isSuccess NONE q
    \<and> questions (fst (timeoutEffect s)) = qs
    \<and> streak (fst (timeoutEffect s)) = 0
    \<and> PlayCorrectSound \<notin> set (snd (timeoutEffect s))
    \<and> PlayIncorrectSound \<notin> set (snd (timeoutEffect s))
    \<and> questionTimeLeft (fst (timeoutEffect s)) = getQuestionTimeLimit (level s)
    \<and> 0 < questionTimeLeft (fst (timeoutEffect s))
    \<and> \<not> timeoutDue (fst (timeoutEffect s))
    \<and> timeoutEffect (fst (timeoutEffect s)) = (fst (timeoutEffect s), [])
    \<and> \<not> timeoutDue (fst (step ev init))
    \<and> map snd (snd (run evs init)) @ questions (fst (run evs init))
        = questions init @ delivered evs"
proof -
  have due: "timeoutDue s" using assms by (simp add: timeoutDue_def)
  have eq: "timeoutEffect s = handleSwipe NONE s" by (rule timeoutEffect_fire [OF due])
  have nosucc: "\<not> isSuccess NONE q" by (simp add: isSuccess_def)
  have idle: "\<not> timeoutDue (fst (timeoutEffect s))" by (rule timeoutEffect_not_due)
  have again: "timeoutEffect (fst (timeoutEffect s)) = (fst (timeoutEffect s), [])"
    by (rule timeoutEffect_idle [OF idle])
  have q: "questions (fst (handleSwipe NONE s)) = qs"
    using assms(3) by (simp add: handleSwipe_questions)
  have st: "streak (fst (handleSwipe NONE s)) = 0"
    using nosucc by (simp add: handleSwipe_streak [OF assms(3)])
  have t: "questionTimeLeft (fst (handleSwipe NONE s)) = getQuestionTimeLimit (level s)"
    using assms(3) by (simp add: handleSwipe_questionTimeLeft)
  show ?thesis
    using eq nosucc idle again q st t handleSwipe_sounds [OF assms(3), of NONE]
      getQuestionTimeLimit_pos [of "level s"] step_not_due [of ev init]
      run_questions [of evs init]
    by simp
qed

theorem timeout_fires_once_witness:
  "timeoutEffect ((session_at [sample_card True, sample_card False] 1 0 0 [])\<lparr>questionTimeLeft := 0\<rparr>)
     = handleSwipe NONE ((session_at [sample_card True, sample_card False] 1 0 0 [])\<lparr>questionTimeLeft := 0\<rparr>)
   \<and> questions (fst (timeoutEffect
        ((session_at [sample_card True, sample_card False] 1 0 0 [])\<lparr>questionTimeLeft := 0\<rparr>)))
       = [sample_card False]
   \<and> questionTimeLeft (fst (timeoutEffect
        ((session_at [sample_card True, sample_card False] 1 0 0 [])\<lparr>questionTimeLeft := 0\<rparr>))) = 4
   \<and> snd (timeoutEffect
        ((session_at [sample_card True, sample_card False] 1 0 0 [])\<lparr>questionTimeLeft := 0\<rparr>))
       = [LoadQuestions 1]
   \<and> snd (run [Tick, Tick]
        ((session_at [sample_card True, sample_card False] 1 0 0 [])\<lparr>questionTimeLeft := 0.15\<rparr>))
       = [(NONE, sample_card True)]
   \<and> questions (fst (run [Tick, Tick]
        ((session_at [sample_card True, sample_card False] 1 0 0 [])\<lparr>questionTimeLeft := 0.15\<rparr>)))
       = [sample_card False]"
proof -
  let ?s = "(session_at [sample_card True, sample_card False] 1 0 0 [])\<lparr>questionTimeLeft := 0\<rparr>"
  let ?r = "(session_at [sample_card True, sample_card False] 1 0 0 [])\<lparr>questionTimeLeft := 0.15\<rparr>"
  have h: "gameState ?s = PLAYING" "questionTimeLeft ?s \<le> 0"
    "questions ?s = sample_card True # [sample_card False]" "level ?s = 1"
    "questionsAnswered ?s = 0"
    by (simp_all add: session_at_def)
  have lim: "getQuestionTimeLimit 1 = 4" by (simp add: getQuestionTimeLimit_def)
  have out: "snd (handleSwipe NONE ?s) = [LoadQuestions 1]"
    by (simp add: handleSwipe_Cons [OF h(3)] Let_def outcome_effects isSuccess_def
        handleSwipe_round_def h QUESTIONS_PER_ROUND_def)
  have log: "snd (run [Tick, Tick] ?r) = [(NONE, sample_card True)]"
    by (simp add: step_def handler_def tickLoop_def Let_def timeoutDue_def judged_def
        session_at_sel tick_gameState tick_questionTimeLeft tick_questions tick_gameTimeLeft
        tick_focusScore timePassed_def decay_def timeoutEffect_def handleSwipe_gameState
        handleSwipe_questionTimeLeft handleSwipe_questions handleSwipe_focusScore
        isSuccess_def penalize_def getQuestionTimeLimit_def)
  note th = timeout_fires_once [OF h(1) h(2) h(3), where evs = "[Tick, Tick]" and init = ?r]
  have 1: "timeoutEffect ?s = handleSwipe NONE ?s"
    using th by blast
  have 2: "questions (fst (timeoutEffect ?s)) = [sample_card False]"
    using th by blast
  have 3: "questionTimeLeft (fst (timeoutEffect ?s)) = 4"
    using th unfolding h(4) lim by blast
  have 4: "snd (timeoutEffect ?s) = [LoadQuestions 1]"
    using out unfolding 1 .
  have "map snd (snd (run [Tick, Tick] ?r)) @ questions (fst (run [Tick, Tick] ?r))
        = questions ?r @ delivered [Tick, Tick]"
    using th by blast
  then have 5: "questions (fst (run [Tick, Tick] ?r)) = [sample_card False]"
    unfolding log by (simp add: session_at_sel)
  show ?thesis
    using 1 2 3 4 5 log by blast
qed

subsection \<open>C2: the global timer\<close>

text \<open>
  C2. On a tick while \<open>PLAYING\<close>, with \<open>timePassed\<close> being 0.07 for a focus score of at
  least 55, 0.14 for one of at most 30 and 0.10 otherwise: if more than \<open>timePassed\<close> is
  left, the global timer decreases by exactly \<open>timePassed\<close> and the game stays
  \<open>PLAYING\<close>; if at most \<open>timePassed\<close> is left, the timer becomes 0 and the game is
  \<open>GAME_OVER\<close> after that same tick. The timer never increases and is never negative,
  over one tick and over any sequence of ticks, swipes and loads.
\<close>

theorem tick_global_timer:
  assumes "gameState s = PLAYING" and "0 \<le> gameTimeLeft s"
  shows "tickLoop s = tick s
    \<and> timePassed (focusScore s) =
        (if focusScore s \<ge> 55 then 0.07 else if focusScore s \<le> 30 then 0.14 else 0.10)
    \<and> (timePassed (focusScore s) < gameTimeLeft s \<longrightarrow>
          gameTimeLeft (tick s) = gameTimeLeft s - timePassed (focusScore s)
          \<and> gameState (tick s) = PLAYING)
    \<and> (gameTimeLeft s \<le> timePassed (focusScore s) \<longrightarrow>
          gameTimeLeft (tick s) = 0 \<and> gameState (tick s) = GAME_OVER)
    \<and> gameTimeLeft (tick s) \<le> gameTimeLeft s
    \<and> 0 \<le> gameTimeLeft (tick s)
    \<and> 0 \<le> gameTimeLeft (fst (run es s))
    \<and> gameTimeLeft (fst (run es s)) \<le> gameTimeLeft s"
proof -
  have tp: "timePassed (focusScore s) =
        (if focusScore s \<ge> 55 then 0.07 else if focusScore s \<le> 30 then 0.14 else 0.10)"
    by (simp add: timePassed_def)
  show ?thesis
    using assms timePassed_pos [of "focusScore s"] tp run_gameTimeLeft [OF assms(2), of es]
    by (simp add: tickLoop_def tick_gameTimeLeft tick_gameState)
qed

theorem tick_global_timer_witness:
  "gameTimeLeft (tick (session_at [sample_card True] 1 0 0 [])) = 150 - 0.10
   \<and> gameState (tick (session_at [sample_card True] 1 0 0 [])) = PLAYING
   \<and> gameTimeLeft (tick ((session_at [sample_card True] 1 0 0 [])\<lparr>gameTimeLeft := 0.05\<rparr>)) = 0
   \<and> gameState (tick ((session_at [sample_card True] 1 0 0 [])\<lparr>gameTimeLeft := 0.05\<rparr>)) = GAME_OVER
   \<and> gameTimeLeft (tick ((session_at [sample_card True] 1 0 0 [])\<lparr>gameTimeLeft := 0.10\<rparr>)) = 0
   \<and> gameState (tick ((session_at [sample_card True] 1 0 0 [])\<lparr>gameTimeLeft := 0.10\<rparr>)) = GAME_OVER
   \<and> 0 \<le> gameTimeLeft (fst (run [Tick, Swipe RIGHT, Tick] (session_at [sample_card True] 1 0 0 [])))
   \<and> gameTimeLeft (fst (run [Tick, Swipe RIGHT, Tick] (session_at [sample_card True] 1 0 0 [])))
       \<le> 150"
proof -
  let ?s = "session_at [sample_card True] 1 0 0 []"
  have a: "gameState ?s = PLAYING" "0 \<le> gameTimeLeft ?s" "focusScore ?s = 50"
    "gameTimeLeft ?s = 150"
    by (simp_all add: session_defs)
  have b: "gameState (?s\<lparr>gameTimeLeft := 0.05\<rparr>) = PLAYING"
    "0 \<le> gameTimeLeft (?s\<lparr>gameTimeLeft := 0.05\<rparr>)"
    "focusScore (?s\<lparr>gameTimeLeft := 0.05\<rparr>) = 50"
    "gameTimeLeft (?s\<lparr>gameTimeLeft := 0.05\<rparr>) = 0.05"
    by (simp_all add: session_defs)
  have c: "gameState (?s\<lparr>gameTimeLeft := 0.10\<rparr>) = PLAYING"
    "0 \<le> gameTimeLeft (?s\<lparr>gameTimeLeft := 0.10\<rparr>)"
    "focusScore (?s\<lparr>gameTimeLeft := 0.10\<rparr>) = 50"
    "gameTimeLeft (?s\<lparr>gameTimeLeft := 0.10\<rparr>) = 0.10"
    by (simp_all add: session_defs)
  show ?thesis
    using tick_global_timer [OF a(1) a(2), of "[Tick, Swipe RIGHT, Tick]"]
      tick_global_timer [OF b(1) b(2)] tick_global_timer [OF c(1) c(2)]
    unfolding a(3,4) b(3,4) c(3,4)
    by simp
qed

subsection \<open>C8: the question timer\<close>

text \<open>
  C8. A tick decrements the question timer by \<open>timePassed\<close>, floored at 0, when the queue
  is non-empty, and leaves it as it is when the queue is empty; a timer that is not negative
  stays so and does not grow in a tick, and stays not negative over any sequence of ticks,
  swipes and loads.
\<close>

theorem tick_question_timer:
  "(questions s \<noteq> [] \<longrightarrow>
      questionTimeLeft (tick s) = max 0 (questionTimeLeft s - timePassed (focusScore s)))
   \<and> (questions s = [] \<longrightarrow> questionTimeLeft (tick s) = questionTimeLeft s)
   \<and> (questions s \<noteq> [] \<longrightarrow> 0 \<le> questionTimeLeft (tick s))
   \<and> (0 \<le> questionTimeLeft s \<longrightarrow>
        0 \<le> questionTimeLeft (tick s) \<and> questionTimeLeft (tick s) \<le> questionTimeLeft s)
   \<and> (0 \<le> questionTimeLeft s \<longrightarrow> 0 \<le> questionTimeLeft (fst (run es s)))"
  using timePassed_pos [of "focusScore s"] run_questionTimeLeft [of s es]
  by (simp add: tick_questionTimeLeft)

theorem tick_question_timer_witness:
  "questionTimeLeft (tick (session_at [sample_card True] 1 0 0 [])) = 3.9
   \<and> questionTimeLeft (tick ((session_at [sample_card True] 1 0 0 [])\<lparr>questionTimeLeft := 0.05\<rparr>)) = 0
   \<and> questionTimeLeft (tick (session_at [] 1 0 0 [])) = 4
   \<and> 0 \<le> questionTimeLeft (fst (run [Tick, Swipe RIGHT, Tick]
        (session_at [sample_card True] 1 0 0 [])))"
proof -
  let ?s = "session_at [sample_card True] 1 0 0 []"
  let ?e = "session_at [] 1 0 0 []"
  have a: "questions ?s \<noteq> []" "questionTimeLeft ?s = 4" "focusScore ?s = 50"
    by (simp_all add: session_defs)
  have b: "questions (?s\<lparr>questionTimeLeft := 0.05\<rparr>) \<noteq> []"
    "questionTimeLeft (?s\<lparr>questionTimeLeft := 0.05\<rparr>) = 0.05"
    "focusScore (?s\<lparr>questionTimeLeft := 0.05\<rparr>) = 50"
    by (simp_all add: session_defs)
  have c: "questions ?e = []" "questionTimeLeft ?e = 4"
    by (simp_all add: session_defs)
  have tp: "timePassed 50 = 0.1" by (simp add: timePassed_def)
  show ?thesis
    using tick_question_timer [of ?s "[Tick, Swipe RIGHT, Tick]"]
      tick_question_timer [of "?s\<lparr>questionTimeLeft := 0.05\<rparr>"]
      tick_question_timer [of ?e]
    unfolding a(2,3) b(2,3) c(2) tp
    using a(1) b(1) c(1) by simp
qed

subsection \<open>C3: the difficulty rules\<close>




subsection \<open>C4: the outcome of a judgment\<close>



subsection \<open>C5: when a refill is requested\<close>

text \<open>
  C5, as amended. Every judgment on a non-empty queue pops the front card. When the judgment
  does not complete a round, or completes one without a level change, a load at the
  current level is requested exactly when the queue held fewer than 5 questions before
  the pop (the judged card counted), that is, when fewer than 4 remain after it.
\<close>

theorem refill_before_pop:
  assumes "questions s = q # qs"
  shows "questions (fst (handleSwipe d s)) = qs
   \<and> ((questionsAnswered s + 1) mod 10 \<noteq> 0 \<longrightarrow>
        level (fst (handleSwipe d s)) = level s
        \<and> (\<forall>lvl. LoadQuestions lvl \<in> set (snd (handleSwipe d s)) \<longleftrightarrow>
              lvl = level s \<and> length (questions s) < 5)
        \<and> (\<forall>lvl. LoadQuestions lvl \<in> set (snd (handleSwipe d s)) \<longleftrightarrow>
              lvl = level s \<and> length (questions (fst (handleSwipe d s))) < 4))
   \<and> ((questionsAnswered s + 1) mod 10 = 0 \<and> level (fst (handleSwipe d s)) = level s \<longrightarrow>
        (\<forall>lvl. LoadQuestions lvl \<in> set (snd (handleSwipe d s)) \<longleftrightarrow>
              lvl = level s \<and> length (questions s) < 5)
        \<and> (\<forall>lvl. LoadQuestions lvl \<in> set (snd (handleSwipe d s)) \<longleftrightarrow>
              lvl = level s \<and> length (questions (fst (handleSwipe d s))) < 4))"
proof -
  have pop: "questions (fst (handleSwipe d s)) = qs"
    using assms by (simp add: handleSwipe_questions)
  have len: "length (questions s) < 5 \<longleftrightarrow> length (questions (fst (handleSwipe d s))) < 4"
    using assms pop by auto
  have same: "(questionsAnswered s + 1) mod 10 \<noteq> 0 \<longrightarrow> level (fst (handleSwipe d s)) = level s"
    by (simp add: handleSwipe_level [OF assms])
  have loads: "level (fst (handleSwipe d s)) = level s \<longrightarrow>
      (\<forall>lvl. LoadQuestions lvl \<in> set (snd (handleSwipe d s)) \<longleftrightarrow>
              lvl = level s \<and> length (questions s) < 5)"
    by (simp add: handleSwipe_loads [OF assms])
  show ?thesis
    using pop same loads len by simp
qed

theorem refill_before_pop_witness:
  "questions (fst (handleSwipe RIGHT (session_at (replicate 4 (sample_card True)) 3 0 0 [])))
     = replicate 3 (sample_card True)
   \<and> LoadQuestions 3 \<in> set (snd (handleSwipe RIGHT
        (session_at (replicate 4 (sample_card True)) 3 0 0 [])))
   \<and> LoadQuestions 3 \<notin> set (snd (handleSwipe RIGHT
        (session_at (replicate 5 (sample_card True)) 3 0 0 [])))
   \<and> LoadQuestions 3 \<in> set (snd (handleSwipe RIGHT
        (session_at (replicate 4 (sample_card True)) 3 9 5 [])))
   \<and> LoadQuestions 3 \<notin> set (snd (handleSwipe RIGHT
        (session_at (replicate 5 (sample_card True)) 3 9 5 [])))"
proof -
  let ?c = "sample_card True"
  have r: "replicate 4 ?c = ?c # replicate 3 ?c" "replicate 5 ?c = ?c # replicate 4 ?c"
    by (simp_all add: numeral_eq_Suc)
  have suc: "isSuccess RIGHT ?c" by (simp add: isSuccess_def sample_card_sel)
  note a = refill_before_pop [of "session_at (replicate 4 ?c) 3 0 0 []" ?c "replicate 3 ?c" RIGHT,
      unfolded session_at_sel, OF r(1)]
  note b = refill_before_pop [of "session_at (replicate 5 ?c) 3 0 0 []" ?c "replicate 4 ?c" RIGHT,
      unfolded session_at_sel, OF r(2)]
  note c = refill_before_pop [of "session_at (replicate 4 ?c) 3 9 5 []" ?c "replicate 3 ?c" RIGHT,
      unfolded session_at_sel, OF r(1)]
  note d = refill_before_pop [of "session_at (replicate 5 ?c) 3 9 5 []" ?c "replicate 4 ?c" RIGHT,
      unfolded session_at_sel, OF r(2)]
  have q4: "questions (session_at (replicate 4 ?c) 3 9 5 []) = ?c # replicate 3 ?c"
    and q5: "questions (session_at (replicate 5 ?c) 3 9 5 []) = ?c # replicate 4 ?c"
    by (simp_all add: session_at_sel r)
  have lv4: "level (fst (handleSwipe RIGHT (session_at (replicate 4 ?c) 3 9 5 []))) = 3"
    using suc by (simp add: handleSwipe_level [OF q4] session_at_sel spec_newLevel_def
        roundAccuracy_def QUESTIONS_PER_ROUND_def)
  have lv5: "level (fst (handleSwipe RIGHT (session_at (replicate 5 ?c) 3 9 5 []))) = 3"
    using suc by (simp add: handleSwipe_level [OF q5] session_at_sel spec_newLevel_def
        roundAccuracy_def QUESTIONS_PER_ROUND_def)
  have 1: "questions (fst (handleSwipe RIGHT (session_at (replicate 4 ?c) 3 0 0 [])))
     = replicate 3 ?c" using a by blast
  have 2: "LoadQuestions 3 \<in> set (snd (handleSwipe RIGHT (session_at (replicate 4 ?c) 3 0 0 [])))"
    using a by simp
  have 3: "LoadQuestions 3 \<notin> set (snd (handleSwipe RIGHT (session_at (replicate 5 ?c) 3 0 0 [])))"
    using b by simp
  have 4: "LoadQuestions 3 \<in> set (snd (handleSwipe RIGHT (session_at (replicate 4 ?c) 3 9 5 [])))"
    using c lv4 by simp
  have 5: "LoadQuestions 3 \<notin> set (snd (handleSwipe RIGHT (session_at (replicate 5 ?c) 3 9 5 [])))"
    using d lv5 by simp
  show ?thesis using 1 2 3 4 5 by blast
qed

text \<open>
  C5 as stated fails: with five questions queued, four remain after the pop, which is
  fewer than 5, and no load is requested.
\<close>

theorem refill_after_pop_counterexample:
  "(questionsAnswered (session_at (replicate 5 (sample_card True)) 1 0 0 []) + 1) mod 10 \<noteq> 0
   \<and> length (questions (fst (handleSwipe RIGHT
        (session_at (replicate 5 (sample_card True)) 1 0 0 [])))) = 4
   \<and> snd (handleSwipe RIGHT (session_at (replicate 5 (sample_card True)) 1 0 0 []))
       = [PlayCorrectSound]
   \<and> \<not> (LoadQuestions 1 \<in> set (snd (handleSwipe RIGHT
            (session_at (replicate 5 (sample_card True)) 1 0 0 [])))
        \<longleftrightarrow> length (questions (fst (handleSwipe RIGHT
            (session_at (replicate 5 (sample_card True)) 1 0 0 [])))) < 5)"
proof -
  let ?c = "sample_card True"
  let ?s = "session_at (replicate 5 ?c) 1 0 0 []"
  have q: "questions ?s = ?c # replicate 4 ?c"
    by (simp add: session_at_sel numeral_eq_Suc)
  have suc: "isSuccess RIGHT ?c" by (simp add: isSuccess_def sample_card_sel)
  have out: "snd (handleSwipe RIGHT ?s) = [PlayCorrectSound]"
    using suc
    by (simp add: handleSwipe_Cons [OF q] Let_def outcome_effects round_effects
        session_at_sel)
  have len: "length (questions (fst (handleSwipe RIGHT ?s))) = 4"
    by (simp add: handleSwipe_questions q)
  show ?thesis
    using out len by (simp add: session_at_sel)
qed

subsection \<open>C6: the reset of the question timer\<close>

text \<open>
  C6, as amended. Every judgment on a non-empty queue, a timeout-triggered one included,
  sets the question timer and its maximum to the limit of the level that is in force when
  the judgment starts, taken from the table 4, 6, 6, 10, 14, 16, 20, 22, 26, 30 for the
  levels 1 to 10 and 4 for any other level. A level change that the judgment itself makes
  (by completing a round) does not enter this reset; the judgment after it uses the new
  level.
\<close>

theorem timer_reset_on_judgment:
  assumes "questions s = q # qs"
  shows "questionTimeLeft (fst (handleSwipe d s)) = getQuestionTimeLimit (level s)
   \<and> currentQuestionMaxTime (fst (handleSwipe d s)) = getQuestionTimeLimit (level s)
   \<and> (gameState s = PLAYING \<and> questionTimeLeft s \<le> 0 \<longrightarrow>
        questionTimeLeft (fst (timeoutEffect s)) = getQuestionTimeLimit (level s))
   \<and> map getQuestionTimeLimit [1, 2, 3, 4, 5, 6, 7, 8, 9, 10]
       = [4, 6, 6, 10, 14, 16, 20, 22, 26, 30]
   \<and> (lvl < 1 \<or> 10 < lvl \<longrightarrow> getQuestionTimeLimit lvl = 4)
   \<and> (qs \<noteq> [] \<longrightarrow>
        questionTimeLeft (fst (handleSwipe d2 (fst (handleSwipe d s))))
          = getQuestionTimeLimit (level (fst (handleSwipe d s))))"
proof -
  have ne: "questions s \<noteq> []" using assms by simp
  have t: "questionTimeLeft (fst (handleSwipe d' s)) = getQuestionTimeLimit (level s)" for d'
    using ne by (simp add: handleSwipe_questionTimeLeft)
  have m: "currentQuestionMaxTime (fst (handleSwipe d s)) = getQuestionTimeLimit (level s)"
    using ne by (simp add: handleSwipe_currentQuestionMaxTime)
  have eff: "gameState s = PLAYING \<and> questionTimeLeft s \<le> 0 \<longrightarrow>
        questionTimeLeft (fst (timeoutEffect s)) = getQuestionTimeLimit (level s)"
    using ne t [of NONE] by (simp add: timeoutEffect_def)
  have tab: "map getQuestionTimeLimit [1, 2, 3, 4, 5, 6, 7, 8, 9, 10]
       = [4, 6, 6, 10, 14, 16, 20, 22, 26, 30]"
    by (simp add: getQuestionTimeLimit_def)
  have dflt: "lvl < 1 \<or> 10 < lvl \<longrightarrow> getQuestionTimeLimit lvl = 4"
    by (auto simp: getQuestionTimeLimit_def)
  have nxt: "qs \<noteq> [] \<longrightarrow>
        questionTimeLeft (fst (handleSwipe d2 (fst (handleSwipe d s))))
          = getQuestionTimeLimit (level (fst (handleSwipe d s)))"
    using assms by (simp add: handleSwipe_questionTimeLeft handleSwipe_questions)
  show ?thesis
    using t [of d] m eff tab dflt nxt by blast
qed

theorem timer_reset_on_judgment_witness:
  "questionTimeLeft (fst (handleSwipe LEFT
      ((session_at [sample_card True, sample_card True] 2 9 0 [])\<lparr>questionTimeLeft := 0\<rparr>))) = 6
   \<and> questionTimeLeft (fst (timeoutEffect
      ((session_at [sample_card True, sample_card True] 2 9 0 [])\<lparr>questionTimeLeft := 0\<rparr>))) = 6
   \<and> getQuestionTimeLimit 0 = 4
   \<and> getQuestionTimeLimit 11 = 4
   \<and> questionTimeLeft (fst (handleSwipe RIGHT (fst (handleSwipe LEFT
      ((session_at [sample_card True, sample_card True] 2 9 0 [])\<lparr>questionTimeLeft := 0\<rparr>))))) = 4"
proof -
  let ?c = "sample_card True"
  let ?s = "(session_at [?c, ?c] 2 9 0 [])\<lparr>questionTimeLeft := 0\<rparr>"
  have q: "questions ?s = ?c # [?c]" by (simp add: session_at_sel)
  have sel: "level ?s = 2" "gameState ?s = PLAYING" "questionTimeLeft ?s \<le> 0"
    "questionsAnswered ?s = 9" "roundCorrectCount ?s = 0" "roundHistory ?s = []"
    by (simp_all add: session_at_sel)
  have lim: "getQuestionTimeLimit 2 = 6" "getQuestionTimeLimit 1 = 4"
    by (simp_all add: getQuestionTimeLimit_def)
  have fail: "\<not> isSuccess LEFT ?c" by (simp add: isSuccess_def sample_card_sel)
  have lv: "level (fst (handleSwipe LEFT ?s)) = 1"
    using fail by (simp add: handleSwipe_level [OF q] sel spec_newLevel_def roundAccuracy_def)
  note a = timer_reset_on_judgment [OF q, of LEFT 0 RIGHT]
  note b = timer_reset_on_judgment [OF q, of LEFT 11 RIGHT]
  have 1: "questionTimeLeft (fst (handleSwipe LEFT ?s)) = 6"
    using a unfolding sel lim by blast
  have 2: "questionTimeLeft (fst (timeoutEffect ?s)) = 6"
    using a sel(2,3) unfolding sel(1) lim by blast
  have 3: "getQuestionTimeLimit 0 = 4" using a by simp
  have 4: "getQuestionTimeLimit 11 = 4" using b by simp
  have 5: "questionTimeLeft (fst (handleSwipe RIGHT (fst (handleSwipe LEFT ?s)))) = 4"
    using a unfolding lv lim by blast
  show ?thesis using 1 2 3 4 5 by blast
qed

text \<open>
  C6 as stated fails: at level 2, a failure on the tenth question of a round with no
  correct answer moves the level to 1, and the next card is presented with a timer of 6,
  the limit of level 2, not 4, the limit of level 1.
\<close>

theorem timer_after_level_change_counterexample:
  "level (session_at [sample_card True, sample_card True] 2 9 0 []) = 2
   \<and> level (fst (handleSwipe LEFT (session_at [sample_card True, sample_card True] 2 9 0 []))) = 1
   \<and> questions (fst (handleSwipe LEFT (session_at [sample_card True, sample_card True] 2 9 0 [])))
       = [sample_card True]
   \<and> questionTimeLeft (fst (handleSwipe LEFT
        (session_at [sample_card True, sample_card True] 2 9 0 []))) = 6
   \<and> getQuestionTimeLimit (level (fst (handleSwipe LEFT
        (session_at [sample_card True, sample_card True] 2 9 0 [])))) = 4
   \<and> questionTimeLeft (fst (handleSwipe LEFT
        (session_at [sample_card True, sample_card True] 2 9 0 [])))
       \<noteq> getQuestionTimeLimit (level (fst (handleSwipe LEFT
        (session_at [sample_card True, sample_card True] 2 9 0 []))))"
proof -
  let ?c = "sample_card True"
  let ?s = "session_at [?c, ?c] 2 9 0 []"
  have q: "questions ?s = ?c # [?c]" by (simp add: session_at_sel)
  have fail: "\<not> isSuccess LEFT ?c" by (simp add: isSuccess_def sample_card_sel)
  have lv: "level (fst (handleSwipe LEFT ?s)) = 1"
    using fail
    by (simp add: handleSwipe_level [OF q] session_at_sel spec_newLevel_def roundAccuracy_def)
  have t: "questionTimeLeft (fst (handleSwipe LEFT ?s)) = 6"
    by (simp add: handleSwipe_questionTimeLeft session_at_sel getQuestionTimeLimit_def)
  have qs: "questions (fst (handleSwipe LEFT ?s)) = [?c]"
    by (simp add: handleSwipe_questions session_at_sel)
  show ?thesis
    using lv t qs by (simp add: session_at_sel getQuestionTimeLimit_def)
qed

subsection \<open>C7: the focus model\<close>

text \<open>
  C7. For a focus score \<open>f\<close> in \<open>[0, 100]\<close>: the decay is \<open>f - 0.15\<close> clamped to
  \<open>[0, 100]\<close>, the reward is \<open>min(100, f + 4)\<close>, the penalty is \<open>max(0, f - 12)\<close>; the
  state is \<open>HIGH\<close> exactly when \<open>f \<ge> 55\<close>, \<open>LOW\<close> exactly when \<open>f \<le> 30\<close> and \<open>MEDIUM\<close>
  otherwise, with the four boundary values as listed; \<open>0 \<le> decay f \<le> f\<close>,
  \<open>0 \<le> reward f \<le> 100\<close> and \<open>0 \<le> penalize f \<le> f\<close>. A tick applies the decay, a
  successful judgment the reward and a failed one the penalty.
\<close>

theorem focus_model:
  assumes "0 \<le> f" and "f \<le> 100"
  shows "decay f = max 0 (min 100 (f - 0.15))
   \<and> reward f = min 100 (f + 4)
   \<and> penalize f = max 0 (f - 12)
   \<and> (getFocusState f = HIGH \<longleftrightarrow> f \<ge> 55)
   \<and> (getFocusState f = LOW \<longleftrightarrow> f \<le> 30)
   \<and> (getFocusState f = MEDIUM \<longleftrightarrow> 30 < f \<and> f < 55)
   \<and> getFocusState 55 = HIGH
   \<and> getFocusState 54.999 = MEDIUM
   \<and> getFocusState 30 = LOW
   \<and> getFocusState 30.001 = MEDIUM
   \<and> 0 \<le> decay f \<and> decay f \<le> f
   \<and> 0 \<le> reward f \<and> reward f \<le> 100
   \<and> 0 \<le> penalize f \<and> penalize f \<le> f
   \<and> focusScore (tick s) = decay (focusScore s)
   \<and> (\<forall>q qs d. questions s = q # qs \<longrightarrow>
        focusScore (fst (handleSwipe d s)) =
          (if isSuccess d q then reward (focusScore s) else penalize (focusScore s)))"
proof -
  have ops: "decay f = max 0 (min 100 (f - 0.15))" "reward f = min 100 (f + 4)"
    "penalize f = max 0 (f - 12)"
    using assms by (simp_all add: decay_def reward_def penalize_def)
  have cls: "getFocusState f = HIGH \<longleftrightarrow> f \<ge> 55" "getFocusState f = LOW \<longleftrightarrow> f \<le> 30"
    "getFocusState f = MEDIUM \<longleftrightarrow> 30 < f \<and> f < 55"
    by (auto simp: getFocusState_def)
  have pts: "getFocusState 55 = HIGH" "getFocusState 54.999 = MEDIUM"
    "getFocusState 30 = LOW" "getFocusState 30.001 = MEDIUM"
    by (simp_all add: getFocusState_def)
  have bds: "0 \<le> decay f" "decay f \<le> f" "0 \<le> reward f" "reward f \<le> 100"
    "0 \<le> penalize f" "penalize f \<le> f"
    using assms by (simp_all add: decay_def reward_def penalize_def)
  have hs: "\<forall>q qs d. questions s = q # qs \<longrightarrow>
        focusScore (fst (handleSwipe d s)) =
          (if isSuccess d q then reward (focusScore s) else penalize (focusScore s))"
    by (simp add: handleSwipe_focusScore)
  show ?thesis
    using ops cls pts bds tick_focusScore [of s] hs by blast
qed

theorem focus_model_witness:
  "decay 50 = 49.85 \<and> decay 0.1 = 0 \<and> reward 50 = 54 \<and> reward 98 = 100
   \<and> penalize 50 = 38 \<and> penalize 5 = 0
   \<and> getFocusState 60 = HIGH \<and> getFocusState 20 = LOW \<and> getFocusState 50 = MEDIUM
   \<and> focusScore (tick (session_at [sample_card True] 1 0 0 [])) = 49.85
   \<and> focusScore (fst (handleSwipe RIGHT (session_at [sample_card True] 1 0 0 []))) = 54
   \<and> focusScore (fst (handleSwipe NONE (session_at [sample_card True] 1 0 0 []))) = 38"
proof -
  let ?c = "sample_card True"
  let ?s = "session_at [?c] 1 0 0 []"
  have suc: "isSuccess RIGHT ?c" "\<not> isSuccess NONE ?c"
    by (simp_all add: isSuccess_def sample_card_sel)
  note a = focus_model [of 50 ?s, unfolded session_at_sel]
  note b = focus_model [of "0.1" ?s]
  note c = focus_model [of 98 ?s]
  note d = focus_model [of 5 ?s]
  note e = focus_model [of 60 ?s]
  note f = focus_model [of 20 ?s]
  have 1: "decay 50 = 49.85" "reward 50 = 54" "penalize 50 = 38" "getFocusState 50 = MEDIUM"
    using a by simp_all
  have 2: "decay 0.1 = 0" using b by simp
  have 3: "reward 98 = 100" using c by simp
  have 4: "penalize 5 = 0" using d by simp
  have 5: "getFocusState 60 = HIGH" using e by simp
  have 6: "getFocusState 20 = LOW" using f by simp
  have 7: "focusScore (tick ?s) = 49.85" using a 1 by simp
  have 8: "focusScore (fst (handleSwipe RIGHT ?s)) = 54"
    "focusScore (fst (handleSwipe NONE ?s)) = 38"
    using a 1 suc by simp_all
  show ?thesis using 1 2 3 4 5 6 7 8 by blast
qed

subsection \<open>C9: the fallback of the question source\<close>

text \<open>
  C9. \<open>generateQuestions\<close> always returns a list (\<open>generateQuestions_returns\<close>); when the
  remote source fails the list holds \<open>count\<close> problems
  (\<open>generateQuestions_fallback_length\<close>), all tagged with the level
  (\<open>generateQuestions_difficulty\<close>). The value shown for a problem meant to be wrong is
  the true value plus an offset of magnitude 1 to 5, made positive if negative, and that
  last step can give the true value back (\<open>displayValue_wrong_coincides\<close>). The run below
  is such a case: at level 1 the draws choose a subtraction of 1 from 2 and the offset
  \<open>-2\<close>; the sum \<open>-1\<close> is shown as \<open>1\<close>, and the problem \<open>2 - 1 = 1\<close> is marked as not
  correct.
\<close>

theorem fallback_wrong_equation_is_true:
  "levelCase 1 (draws [0.2, 0.7, 0.15, 0.05, 0.3, 0.4]) 1 = (''2 - 1'', 1, 4)
   \<and> displayValue False 1 0.3 0.4 = 1
   \<and> generateEquationForLevel 1 (draws [0.2, 0.7, 0.15, 0.05, 0.3, 0.4]) 0
       = ((''2 - 1 = 1'', False), 6)
   \<and> generateQuestions 1 1 ApiFailure (draws [0.2, 0.7, 0.15, 0.05, 0.3, 0.4])
        (\<lambda>k. 1700000000000)
       = Inr [\<lparr>id_field = ''local-1700000000000-0'', equation = ''2 - 1 = 1'',
              isCorrect = False, difficulty = 1\<rparr>]"
  by code_simp

subsection \<open>C10: the start of a game\<close>

text \<open>
  C10. Whatever the state before, the synchronous part of \<open>startGame\<close> leaves the same
  state: global timer 150, focus score 50 (\<open>MEDIUM\<close>, so that the first tick takes 0.10),
  level 1, score 0, streak 0, both counters 0, empty history, empty queue, question timer
  and its maximum 4 (the limit of level 1), and the phase \<open>LOADING\<close>. It requests the
  questions of level 1; when they arrive they are the queue and the phase is \<open>PLAYING\<close>.
\<close>

theorem startGame_initial_session:
  "fst (startGame_reset s) =
     \<lparr>gameState = LOADING, questions = [], score = 0, gameTimeLeft = 150,
      questionTimeLeft = 4, currentQuestionMaxTime = 4, streak = 0, level = 1,
      questionsAnswered = 0, roundCorrectCount = 0, roundHistory = [],
      focusScore = 50, dragOffset = 0\<rparr>
   \<and> fst (startGame_reset s) = fst (startGame_reset s')
   \<and> snd (startGame_reset s) = [InitAudio, LoadQuestions 1]
   \<and> MAX_GAME_TIME = 150
   \<and> getQuestionTimeLimit 1 = 4
   \<and> getFocusState (focusScore (fst (startGame_reset s))) = MEDIUM
   \<and> timePassed (focusScore (fst (startGame_reset s))) = 0.10
   \<and> (\<exists>newQuestions.
        generateQuestions QUESTIONS_PER_ROUND 1 outcome rnd now = Inr newQuestions
        \<and> startGame_loaded outcome rnd now (fst (startGame_reset s)) =
            (fst (startGame_reset s))\<lparr>questions := newQuestions, gameState := PLAYING\<rparr>)
   \<and> gameTimeLeft (tick (startGame_loaded outcome rnd now (fst (startGame_reset s))))
       = 150 - 0.10"
proof -
  obtain qs where qs: "generateQuestions QUESTIONS_PER_ROUND 1 outcome rnd now = Inr qs"
    using generateQuestions_returns by blast
  have reset: "fst (startGame_reset t) =
     \<lparr>gameState = LOADING, questions = [], score = 0, gameTimeLeft = 150,
      questionTimeLeft = 4, currentQuestionMaxTime = 4, streak = 0, level = 1,
      questionsAnswered = 0, roundCorrectCount = 0, roundHistory = [],
      focusScore = 50, dragOffset = 0\<rparr>" for t
    by (cases t) (simp add: startGame_reset_def getQuestionTimeLimit_def MAX_GAME_TIME_def)
  have same: "fst (startGame_reset s) = fst (startGame_reset s')"
    by (simp only: reset)
  have loaded: "startGame_loaded outcome rnd now (fst (startGame_reset s)) =
            (fst (startGame_reset s))\<lparr>questions := qs, gameState := PLAYING\<rparr>"
    by (simp add: reset startGame_loaded_def loadQuestions_def qs)
  have a: "snd (startGame_reset s) = [InitAudio, LoadQuestions 1]"
    by (simp add: startGame_reset_def Let_def)
  have b: "MAX_GAME_TIME = 150" "getQuestionTimeLimit 1 = 4"
    by (simp_all add: getQuestionTimeLimit_def MAX_GAME_TIME_def)
  have c: "getFocusState (focusScore (fst (startGame_reset s))) = MEDIUM"
    "timePassed (focusScore (fst (startGame_reset s))) = 0.10"
    by (simp_all add: reset getFocusState_def timePassed_def)
  have d: "gameTimeLeft (tick (startGame_loaded outcome rnd now (fst (startGame_reset s))))
       = 150 - 0.10"
    by (simp only: loaded) (simp add: reset tick_gameTimeLeft timePassed_def)
  have e: "\<exists>newQuestions.
        generateQuestions QUESTIONS_PER_ROUND 1 outcome rnd now = Inr newQuestions
        \<and> startGame_loaded outcome rnd now (fst (startGame_reset s)) =
            (fst (startGame_reset s))\<lparr>questions := newQuestions, gameState := PLAYING\<rparr>"
    using qs loaded by blast
  show ?thesis
    using reset [of s] same a b c d e by blast
qed

theorem startGame_initial_session_witness:
  "fst (startGame_reset (session_at [sample_card True] 7 23 2 [0.8])) =
     \<lparr>gameState = LOADING, questions = [], score = 0, gameTimeLeft = 150,
      questionTimeLeft = 4, currentQuestionMaxTime = 4, streak = 0, level = 1,
      questionsAnswered = 0, roundCorrectCount = 0, roundHistory = [],
      focusScore = 50, dragOffset = 0\<rparr>
   \<and> fst (startGame_reset (session_at [sample_card True] 7 23 2 [0.8])) =
       fst (startGame_reset (session_at [] 1 0 0 []))
   \<and> gameTimeLeft (tick (startGame_loaded ApiFailure (draws []) (\<lambda>k. 0)
         (fst (startGame_reset (session_at [sample_card True] 7 23 2 [0.8]))))) = 150 - 0.10"
  using startGame_initial_session
    [of "session_at [sample_card True] 7 23 2 [0.8]" "session_at [] 1 0 0 []"
        ApiFailure "draws []" "\<lambda>k. 0"]
  by blast

end
